theory Spec2Isabelle
  imports Main
begin

section \<open>Collaborators of accessibility.contribution.ts\<close>

text \<open>
  The file under verification is
  \<^verbatim>\<open>vs/workbench/contrib/accessibility/browser/accessibility.contribution.ts\<close>.
  It reaches the editor, the keybinding service, the command service and the accessible
  view service only through narrow interfaces; each interface is modelled here by the
  data the file reads from it.
\<close>

subsection \<open>JavaScript values\<close>

text \<open>A value that may be \<^verbatim>\<open>null\<close> or \<^verbatim>\<open>undefined\<close>.\<close>

datatype 'a nullable = Null | Undefined | Defined 'a

text \<open>
  Modelled from the spec: \<^verbatim>\<open>withNullAsUndefined\<close> (\<^verbatim>\<open>vs/base/common/types\<close>) is
  imported by the file and not defined in it. As its name says it turns \<^verbatim>\<open>null\<close> into
  \<^verbatim>\<open>undefined\<close> and passes every other value through, so that a widget that "holds no
  content" reaches the test of the hover implementation as a falsy value.
\<close>

fun withNullAsUndefined :: "'a nullable \<Rightarrow> 'a nullable" where
  "withNullAsUndefined Null = Undefined"
| "withNullAsUndefined Undefined = Undefined"
| "withNullAsUndefined (Defined x) = Defined x"

text \<open>JavaScript's \<^verbatim>\<open>!s\<close> on a string that may be absent: absent or empty.\<close>

fun falsy :: "string nullable \<Rightarrow> bool" where
  "falsy Null = True"
| "falsy Undefined = True"
| "falsy (Defined s) = (s = [])"

text \<open>JavaScript's \<^verbatim>\<open>a || b\<close> on object references (an object is always truthy).\<close>

fun or_else :: "'a option \<Rightarrow> 'a option \<Rightarrow> 'a option" where
  "or_else (Some a) b = Some a"
| "or_else None b = b"

text \<open>\<^verbatim>\<open>Array.prototype.join\<close> on an array of strings.\<close>

fun join :: "string \<Rightarrow> string list \<Rightarrow> string" where
  "join sep [] = []"
| "join sep [x] = x"
| "join sep (x # y # ys) = x @ sep @ join sep (y # ys)"

text \<open>\<^verbatim>\<open>Array.prototype.push\<close> with one or more arguments.\<close>

definition push :: "'a list \<Rightarrow> 'a list \<Rightarrow> 'a list" where
  "push content items = content @ items"

text \<open>The separator \<^verbatim>\<open>'\n'\<close>.\<close>

definition newline :: string where
  "newline = [CHR 0x0A]"

subsection \<open>The editor\<close>

datatype AccessibilitySupport = Unknown | Disabled | Enabled

text \<open>The four options \<^verbatim>\<open>provideContent\<close> reads from \<^verbatim>\<open>editor.getOptions()\<close>.\<close>

record editor_options =
  inDiffEditor :: bool
  readOnly :: bool
  accessibilitySupport :: AccessibilitySupport
  tabFocusMode :: bool

text \<open>
  \<^verbatim>\<open>ModesHoverController\<close>: \<^verbatim>\<open>getWidgetContents()\<close> gives the text of the hover widget
  at the time of the call, if there is one.
\<close>

record hover_controller =
  getWidgetContents :: "string nullable"

text \<open>
  An editor object: its computed options, the raw option \<^verbatim>\<open>accessibilityHelpUrl\<close>
  (\<open>None\<close> is \<^verbatim>\<open>undefined\<close>) and the result of \<^verbatim>\<open>ModesHoverController.get(editor)\<close>
  (\<open>None\<close> is \<^verbatim>\<open>null\<close>).
\<close>

record code_editor =
  getOptions :: editor_options
  accessibilityHelpUrl :: "string option"
  hoverController :: "hover_controller option"

text \<open>A resolved keybinding, of which the file reads the aria label only, a string.\<close>

record resolved_keybinding =
  getAriaLabel :: string

text \<open>
  Editors are objects with identity: the help provider keeps a reference to its editor and
  reads the options again at every call. The state of the workbench is therefore a store of
  editors by reference, the two answers of the code editor service and the keybinding table.
\<close>

type_synonym editor_ref = nat

record world =
  editors :: "editor_ref \<Rightarrow> code_editor"
  getActiveCodeEditor :: "editor_ref option"
  getFocusedCodeEditor :: "editor_ref option"
  lookupKeybinding :: "string \<Rightarrow> resolved_keybinding option"

subsection \<open>Strings, platform and commands\<close>

text \<open>
  The string table \<^verbatim>\<open>AccessibilityHelpNLS\<close> (\<^verbatim>\<open>vs/editor/common/standaloneStrings\<close>)
  is outside the file: it is a parameter.
\<close>

record AccessibilityHelpNLS =
  accessibilityHelpTitle :: string
  readonlyDiffEditor :: string
  editableDiffEditor :: string
  readonlyEditor :: string
  editableEditor :: string
  changeConfigToOnMac :: string
  changeConfigToOnWinLinux :: string
  auto_on :: string
  auto_off :: string
  tabFocusModeOnMsg :: string
  tabFocusModeOnMsgNoKb :: string
  tabFocusModeOffMsg :: string
  tabFocusModeOffMsgNoKb :: string

text \<open>
  Everything else the file imports and does not define: \<^verbatim>\<open>platform.isMacintosh\<close>,
  \<^verbatim>\<open>strings.format\<close> (used with one argument), \<^verbatim>\<open>localize\<close> (key and default message),
  the two command identifiers, and the command service, whose \<^verbatim>\<open>executeCommand\<close> changes
  the workbench or fails (\<open>None\<close>: the promise rejects).
\<close>

record host =
  NLS :: AccessibilityHelpNLS
  isMacintosh :: bool
  format :: "string \<Rightarrow> string \<Rightarrow> string"
  localize :: "string \<Rightarrow> string \<Rightarrow> string"
  ToggleTabFocusModeAction_ID :: string
  NEW_UNTITLED_FILE_COMMAND_ID :: string
  executeCommand :: "string \<Rightarrow> world \<Rightarrow> world option"

section \<open>AccessibilityHelpProvider\<close>

subsection \<open>Providers\<close>

record IAccessibleViewOptions =
  isHelpMenu :: "bool option"
  ariaLabel :: string
  readMoreUrl :: "string option"
  language :: "string option"

text \<open>
  The \<^verbatim>\<open>provideContent\<close> member of a provider is a closure; it is kept in defunctionalised
  form: the help provider's method with the editor it refers to, or the hover
  implementation's local function with the string it captured.
\<close>

datatype content_closure = HelpContent editor_ref | HoverContent string

record IAccessibleContentProvider =
  provider_id :: string
  provider_options :: IAccessibleViewOptions
  provider_content :: content_closure

subsection \<open>The constructor\<close>

definition default_readMoreUrl :: string where
  "default_readMoreUrl = ''https://go.microsoft.com/fwlink/?linkid=852450''"

text \<open>
  The field initialisers set \<^verbatim>\<open>options\<close> and \<^verbatim>\<open>id\<close>; the constructor body then reads
  the raw option and stores the URL.
\<close>

definition new_AccessibilityHelpProvider ::
  "host \<Rightarrow> world \<Rightarrow> editor_ref \<Rightarrow> IAccessibleContentProvider" where
  "new_AccessibilityHelpProvider h w ed =
     (let options = \<lparr>isHelpMenu = Some True,
                     ariaLabel = localize h ''terminal-help-label'' ''terminal accessibility help'',
                     readMoreUrl = None,
                     language = None\<rparr>;
          url = accessibilityHelpUrl (editors w ed);
          url = (case url of None \<Rightarrow> default_readMoreUrl | Some u \<Rightarrow> u);
          options = options\<lparr>readMoreUrl := Some url\<rparr>
      in \<lparr>provider_id = ''editor'',
          provider_options = options,
          provider_content = HelpContent ed\<rparr>)"

subsection \<open>The content\<close>

definition descriptionForCommand :: "host \<Rightarrow> world \<Rightarrow> string \<Rightarrow> string \<Rightarrow> string \<Rightarrow> string" where
  "descriptionForCommand h w commandId msg noKbMsg =
     (case lookupKeybinding w commandId of
        Some kb \<Rightarrow> format h msg (getAriaLabel kb)
      | None \<Rightarrow> format h noKbMsg commandId)"

text \<open>The array \<^verbatim>\<open>content\<close> as it stands just before \<^verbatim>\<open>content.join('\n')\<close>.\<close>

definition provideContent_lines :: "host \<Rightarrow> world \<Rightarrow> editor_ref \<Rightarrow> string list" where
  "provideContent_lines h w ed =
     (let options = getOptions (editors w ed);
          content = [];
          content = push content [accessibilityHelpTitle (NLS h)];
          content =
            (if inDiffEditor options then
               (if readOnly options then push content [readonlyDiffEditor (NLS h)]
                else push content [editableDiffEditor (NLS h)])
             else
               (if readOnly options then push content [readonlyEditor (NLS h)]
                else push content [editableEditor (NLS h)]));
          turnOnMessage =
            (if isMacintosh h then changeConfigToOnMac (NLS h)
             else changeConfigToOnWinLinux (NLS h));
          content =
            (case accessibilitySupport options of
               Unknown \<Rightarrow> push content [turnOnMessage]
             | Enabled \<Rightarrow> push content [auto_on (NLS h)]
             | Disabled \<Rightarrow> push content [auto_off (NLS h), turnOnMessage]);
          content =
            (if tabFocusMode options then
               push content [descriptionForCommand h w (ToggleTabFocusModeAction_ID h)
                               (tabFocusModeOnMsg (NLS h)) (tabFocusModeOnMsgNoKb (NLS h))]
             else
               push content [descriptionForCommand h w (ToggleTabFocusModeAction_ID h)
                               (tabFocusModeOffMsg (NLS h)) (tabFocusModeOffMsgNoKb (NLS h))])
      in content)"

definition provideContent :: "host \<Rightarrow> world \<Rightarrow> editor_ref \<Rightarrow> string" where
  "provideContent h w ed = join newline (provideContent_lines h w ed)"

text \<open>Calling \<^verbatim>\<open>provider.provideContent()\<close> in a given state of the workbench.\<close>

fun call_provideContent :: "host \<Rightarrow> world \<Rightarrow> IAccessibleContentProvider \<Rightarrow> string" where
  "call_provideContent h w p =
     (case provider_content p of
        HelpContent ed \<Rightarrow> provideContent h w ed
      | HoverContent hoverContent \<Rightarrow> hoverContent)"

section \<open>The two contributions\<close>

subsection \<open>Results and effects of an implementation\<close>

datatype js_value = JSUndefined | JSBool bool

datatype js_error = TypeError | CommandFailed

text \<open>
  What a registered implementation hands back to the action: a value returned
  synchronously, or (for an \<^verbatim>\<open>async\<close> function) a promise that is fulfilled with a value
  or rejected with an error.
\<close>

datatype handler_result = Returned js_value | Fulfilled js_value | Rejected js_error

text \<open>The calls an implementation makes on the command service and the accessible view service.\<close>

datatype service_call =
    ExecuteCommand string
  | RegisterProvider IAccessibleContentProvider
  | ShowView string

type_synonym implementation = "world \<Rightarrow> handler_result \<times> service_call list"

record ActionImplementation =
  priority :: int
  name :: string
  run :: implementation

subsection \<open>EditorAccessibilityHelpContribution\<close>

text \<open>
  The \<^verbatim>\<open>async\<close> function registered with \<^verbatim>\<open>AccessibilityHelpAction.addImplementation\<close>.
  It has no \<^verbatim>\<open>return\<close> statement, so its promise is fulfilled with \<^verbatim>\<open>undefined\<close>.
  When the command is rejected the \<^verbatim>\<open>await\<close> throws; when no editor is active afterwards
  the non-null assertion lets \<^verbatim>\<open>null\<close> through and the constructor's
  \<^verbatim>\<open>this._editor.getRawOptions()\<close> throws.
\<close>

definition editorHelpImplementation :: "host \<Rightarrow> implementation" where
  "editorHelpImplementation h w =
     (case or_else (getActiveCodeEditor w) (getFocusedCodeEditor w) of
        Some codeEditor \<Rightarrow>
          (Fulfilled JSUndefined,
           [RegisterProvider (new_AccessibilityHelpProvider h w codeEditor), ShowView ''editor''])
      | None \<Rightarrow>
          (case executeCommand h (NEW_UNTITLED_FILE_COMMAND_ID h) w of
             None \<Rightarrow> (Rejected CommandFailed, [ExecuteCommand (NEW_UNTITLED_FILE_COMMAND_ID h)])
           | Some w' \<Rightarrow>
               (case getActiveCodeEditor w' of
                  None \<Rightarrow> (Rejected TypeError, [ExecuteCommand (NEW_UNTITLED_FILE_COMMAND_ID h)])
                | Some codeEditor \<Rightarrow>
                    (Fulfilled JSUndefined,
                     [ExecuteCommand (NEW_UNTITLED_FILE_COMMAND_ID h),
                      RegisterProvider (new_AccessibilityHelpProvider h w' codeEditor),
                      ShowView ''editor'']))))"

definition EditorAccessibilityHelpContribution :: "host \<Rightarrow> ActionImplementation" where
  "EditorAccessibilityHelpContribution h =
     \<lparr>priority = 100, name = ''editor'', run = editorHelpImplementation h\<rparr>"

subsection \<open>HoverAccessibileViewContribution\<close>

definition hoverProvider :: "host \<Rightarrow> string \<Rightarrow> IAccessibleContentProvider" where
  "hoverProvider h hoverContent =
     \<lparr>provider_id = ''hover'',
      provider_options =
        \<lparr>isHelpMenu = None,
         ariaLabel = localize h ''hoverAccessibleView'' ''Hover Accessible View'',
         readMoreUrl = None,
         language = Some ''typescript''\<rparr>,
      provider_content = HoverContent hoverContent\<rparr>"

text \<open>
  The function registered with \<^verbatim>\<open>AccessibilityViewAction.addImplementation\<close>. Past the
  test \<^verbatim>\<open>!controller || !hoverContent\<close> the content is a non-empty string, which the
  closure \<^verbatim>\<open>provideContent\<close> captures; the last branch of the inner case is never taken.
\<close>

definition hoverImplementation :: "host \<Rightarrow> implementation" where
  "hoverImplementation h w =
     (case or_else (getActiveCodeEditor w) (getFocusedCodeEditor w) of
        None \<Rightarrow> (Returned (JSBool False), [])
      | Some editor \<Rightarrow>
          (let controller = hoverController (editors w editor);
               hoverContent = withNullAsUndefined
                 (case controller of None \<Rightarrow> Undefined | Some c \<Rightarrow> getWidgetContents c)
           in if controller = None \<or> falsy hoverContent then (Returned (JSBool False), [])
              else (case hoverContent of
                      Defined s \<Rightarrow>
                        (Returned (JSBool True),
                         [RegisterProvider (hoverProvider h s), ShowView ''hover''])
                    | _ \<Rightarrow> (Returned (JSBool False), []))))"

definition HoverAccessibileViewContribution :: "host \<Rightarrow> ActionImplementation" where
  "HoverAccessibileViewContribution h =
     \<lparr>priority = 90, name = ''hover'', run = hoverImplementation h\<rparr>"

subsection \<open>Reading a sequence of calls\<close>

text \<open>Whether an implementation called \<^verbatim>\<open>registerProvider\<close> or \<^verbatim>\<open>show\<close> at all.\<close>

fun is_register_or_show :: "service_call \<Rightarrow> bool" where
  "is_register_or_show (ExecuteCommand c) = False"
| "is_register_or_show (RegisterProvider p) = True"
| "is_register_or_show (ShowView s) = True"

fun is_show :: "service_call \<Rightarrow> bool" where
  "is_show (ShowView s) = True"
| "is_show _ = False"

text \<open>
  Every \<^verbatim>\<open>show(s)\<close> in the sequence comes directly after a \<^verbatim>\<open>registerProvider(p)\<close>
  with \<^verbatim>\<open>p.id = s\<close>; the first argument is the call before the sequence.
\<close>

fun registers_slot :: "service_call option \<Rightarrow> string \<Rightarrow> bool" where
  "registers_slot (Some (RegisterProvider p)) s = (provider_id p = s)"
| "registers_slot _ s = False"

fun show_after_register :: "service_call option \<Rightarrow> service_call list \<Rightarrow> bool" where
  "show_after_register prev [] = True"
| "show_after_register prev (ShowView s # cs) =
     (registers_slot prev s \<and> show_after_register (Some (ShowView s)) cs)"
| "show_after_register prev (c # cs) = show_after_register (Some c) cs"

section \<open>The parts of the design that live in other files\<close>

subsection \<open>ProviderRegistry\<close>

text \<open>
  Modelled from the spec: \<^verbatim>\<open>AccessibleViewService\<close> (the ProviderRegistry,
  \<^verbatim>\<open>accessibleView.ts\<close>) is not in the file. Section 4.2: each slot is Empty, Registered
  or Shown; \<^verbatim>\<open>registerProvider\<close> puts the provider in the slot keyed by its id and closes
  the provider it replaces; \<^verbatim>\<open>show\<close> fails with NotRegistered when the slot is empty and
  otherwise presents the provider, idempotently.
\<close>

datatype slot = Empty | Registered IAccessibleContentProvider | Shown IAccessibleContentProvider

datatype registry_error = NotRegistered

record ProviderRegistry =
  slots :: "string \<Rightarrow> slot"
  closed :: "IAccessibleContentProvider list"

definition registerProvider :: "ProviderRegistry \<Rightarrow> IAccessibleContentProvider \<Rightarrow> ProviderRegistry" where
  "registerProvider reg p =
     (case slots reg (provider_id p) of
        Empty \<Rightarrow> reg\<lparr>slots := (slots reg)(provider_id p := Registered p)\<rparr>
      | Registered q \<Rightarrow>
          reg\<lparr>slots := (slots reg)(provider_id p := Registered p), closed := closed reg @ [q]\<rparr>
      | Shown q \<Rightarrow>
          reg\<lparr>slots := (slots reg)(provider_id p := Registered p), closed := closed reg @ [q]\<rparr>)"

definition show_slot :: "ProviderRegistry \<Rightarrow> string \<Rightarrow> registry_error + ProviderRegistry" where
  "show_slot reg slotId =
     (case slots reg slotId of
        Empty \<Rightarrow> Inl NotRegistered
      | Registered p \<Rightarrow> Inr (reg\<lparr>slots := (slots reg)(slotId := Shown p)\<rparr>)
      | Shown p \<Rightarrow> Inr reg)"

text \<open>
  The calls of an implementation applied to a registry, in order. NotRegistered is reported
  and not fatal, so the errors are collected and the run goes on.
\<close>

fun perform :: "ProviderRegistry \<Rightarrow> service_call list \<Rightarrow> ProviderRegistry \<times> registry_error list" where
  "perform reg [] = (reg, [])"
| "perform reg (ExecuteCommand c # cs) = perform reg cs"
| "perform reg (RegisterProvider p # cs) = perform (registerProvider reg p) cs"
| "perform reg (ShowView s # cs) =
     (case show_slot reg s of
        Inl e \<Rightarrow> (case perform reg cs of (reg', es) \<Rightarrow> (reg', e # es))
      | Inr reg' \<Rightarrow> perform reg' cs)"

subsection \<open>PrioritizedAction\<close>

text \<open>
  Modelled from the spec: the action that owns the implementations (\<^verbatim>\<open>addImplementation\<close>
  and \<^verbatim>\<open>invoke\<close> of AccessibilityHelpAction and AccessibilityViewAction,
  \<^verbatim>\<open>accessibilityContribution.ts\<close>) is not in the file. Sections 3 and 4.1: a handler maps
  a context to a boolean, possibly through a promise, or throws or rejects; the list is kept
  sorted by priority, highest first, earlier registration first among equals; \<^verbatim>\<open>invoke\<close>
  walks the list, treats a throw or a rejection as false and goes on, stops at the first
  true, and returns false when nobody returned true.
\<close>

datatype handler_outcome = Result bool | Fault

record 'ctx PrioritizedImplementation =
  impl_priority :: int
  surfaceId :: string
  handler :: "'ctx \<Rightarrow> handler_outcome"

fun addImplementation ::
  "'ctx PrioritizedImplementation \<Rightarrow> 'ctx PrioritizedImplementation list
     \<Rightarrow> 'ctx PrioritizedImplementation list" where
  "addImplementation i [] = [i]"
| "addImplementation i (j # js) =
     (if impl_priority j < impl_priority i then i # j # js else j # addImplementation i js)"

text \<open>The result of \<^verbatim>\<open>invoke\<close> with the surfaces whose handlers were called, in order.\<close>

fun invoke :: "'ctx PrioritizedImplementation list \<Rightarrow> 'ctx \<Rightarrow> handler_outcome \<times> string list" where
  "invoke [] ctx = (Result False, [])"
| "invoke (i # is) ctx =
     (case handler i ctx of
        Result True \<Rightarrow> (Result True, [surfaceId i])
      | Result False \<Rightarrow> (case invoke is ctx of (r, called) \<Rightarrow> (r, surfaceId i # called))
      | Fault \<Rightarrow> (case invoke is ctx of (r, called) \<Rightarrow> (r, surfaceId i # called)))"

section \<open>A sample environment\<close>

text \<open>
  The theorems below hold for every string table, platform and formatting function. To run
  the definitions on concrete inputs, here is one environment: English messages, a
  formatter that puts its argument in the place of every \<^verbatim>\<open>{0}\<close>, a \<^verbatim>\<open>localize\<close> that
  returns the default message, and a command service whose new-untitled-file command opens
  editor 0 and makes it active.
\<close>

function substitute0 :: "string \<Rightarrow> string \<Rightarrow> string" where
  "substitute0 [] arg = []"
| "substitute0 (c # cs) arg =
     (if c = CHR ''{'' \<and> take 2 cs = ''0}'' then arg @ substitute0 (drop 2 cs) arg
      else c # substitute0 cs arg)"
  by pat_completeness auto
termination
  by (relation "measure (\<lambda>(s, arg). length s)") auto

definition sample_NLS :: AccessibilityHelpNLS where
  "sample_NLS =
     \<lparr>accessibilityHelpTitle = ''Accessibility Help'',
      readonlyDiffEditor = ''You are in a read-only pane of a diff editor.'',
      editableDiffEditor = ''You are in a pane of a diff editor.'',
      readonlyEditor = ''You are in a read-only code editor'',
      editableEditor = ''You are in a code editor'',
      changeConfigToOnMac = ''Press Command+E to turn on screen reader mode.'',
      changeConfigToOnWinLinux = ''Press Control+E to turn on screen reader mode.'',
      auto_on = ''The editor is optimized for a screen reader.'',
      auto_off = ''The editor is never optimized for a screen reader.'',
      tabFocusModeOnMsg = ''Tab moves focus. Toggle with {0}.'',
      tabFocusModeOnMsgNoKb = ''Tab moves focus. Command {0} has no keybinding.'',
      tabFocusModeOffMsg = ''Tab inserts a tab. Toggle with {0}.'',
      tabFocusModeOffMsgNoKb = ''Tab inserts a tab. Command {0} has no keybinding.''\<rparr>"

definition sample_host :: host where
  "sample_host =
     \<lparr>NLS = sample_NLS,
      isMacintosh = False,
      format = substitute0,
      localize = (\<lambda>key message. message),
      ToggleTabFocusModeAction_ID = ''editor.action.toggleTabFocusMode'',
      NEW_UNTITLED_FILE_COMMAND_ID = ''workbench.action.files.newUntitledFile'',
      executeCommand = (\<lambda>commandId w. Some (w\<lparr>getActiveCodeEditor := Some 0\<rparr>))\<rparr>"

text \<open>A read-only diff editor with accessibility support disabled and tab focus mode on.\<close>

definition sample_editor :: code_editor where
  "sample_editor =
     \<lparr>getOptions = \<lparr>inDiffEditor = True, readOnly = True,
                     accessibilitySupport = Disabled, tabFocusMode = True\<rparr>,
      accessibilityHelpUrl = None,
      hoverController = Some \<lparr>getWidgetContents = Defined ''const x: number''\<rparr>\<rparr>"

definition sample_keybindings :: "string \<Rightarrow> resolved_keybinding option" where
  "sample_keybindings commandId =
     (if commandId = ''editor.action.toggleTabFocusMode'' then Some \<lparr>getAriaLabel = ''Alt+F1''\<rparr>
      else None)"

definition sample_world :: world where
  "sample_world =
     \<lparr>editors = (\<lambda>ed. sample_editor),
      getActiveCodeEditor = Some 0,
      getFocusedCodeEditor = None,
      lookupKeybinding = sample_keybindings\<rparr>"

text \<open>The same workbench with no editor open, and with no keybindings.\<close>

definition empty_world :: world where
  "empty_world = sample_world\<lparr>getActiveCodeEditor := None\<rparr>"

definition unbound_world :: world where
  "unbound_world = sample_world\<lparr>lookupKeybinding := (\<lambda>commandId. None)\<rparr>"

text \<open>The lines of a string, for counting them: the pieces between newline characters.\<close>

fun lines_of :: "string \<Rightarrow> string list" where
  "lines_of [] = [[]]"
| "lines_of (c # cs) =
     (if c = CHR 0x0A then [] # lines_of cs
      else (case lines_of cs of l # ls \<Rightarrow> (c # l) # ls | [] \<Rightarrow> [[c]]))"

text \<open>
  Two implementations registered on one action: the one of higher priority always faults,
  the other handles context 1 only.
\<close>

definition sample_implementations :: "nat PrioritizedImplementation list" where
  "sample_implementations =
     addImplementation
       \<lparr>impl_priority = 90, surfaceId = ''hover'', handler = (\<lambda>ctx. Result (ctx = 1))\<rparr>
       (addImplementation
          \<lparr>impl_priority = 100, surfaceId = ''editor'', handler = (\<lambda>ctx. Fault)\<rparr> [])"

section \<open>The help text\<close>

subsection \<open>Layout of the content\<close>

text \<open>
  C1. For every state of the editor options, \<^verbatim>\<open>provideContent\<close> returns the newline-join
  of these lines, in this order: the title; the one editor-mode message chosen by
  \<^verbatim>\<open>inDiffEditor\<close> and \<^verbatim>\<open>readOnly\<close>; the accessibility-support lines chosen by the
  tri-state setting (Enabled: auto_on; Disabled: auto_off and the turn-on hint; Unknown: the
  turn-on hint), the hint being the Mac text on macOS and the Windows/Linux text otherwise;
  and one tab-focus-mode line.
\<close>

theorem provideContent_layout:
  "provideContent h w ed =
     join newline
       ([accessibilityHelpTitle (NLS h)]
        @ [if inDiffEditor (getOptions (editors w ed))
           then (if readOnly (getOptions (editors w ed))
                 then readonlyDiffEditor (NLS h) else editableDiffEditor (NLS h))
           else (if readOnly (getOptions (editors w ed))
                 then readonlyEditor (NLS h) else editableEditor (NLS h))]
        @ (case accessibilitySupport (getOptions (editors w ed)) of
             Enabled \<Rightarrow> [auto_on (NLS h)]
           | Disabled \<Rightarrow>
               [auto_off (NLS h),
                if isMacintosh h then changeConfigToOnMac (NLS h)
                else changeConfigToOnWinLinux (NLS h)]
           | Unknown \<Rightarrow>
               [if isMacintosh h then changeConfigToOnMac (NLS h)
                else changeConfigToOnWinLinux (NLS h)])
        @ [descriptionForCommand h w (ToggleTabFocusModeAction_ID h)
             (if tabFocusMode (getOptions (editors w ed))
              then tabFocusModeOnMsg (NLS h) else tabFocusModeOffMsg (NLS h))
             (if tabFocusMode (getOptions (editors w ed))
              then tabFocusModeOnMsgNoKb (NLS h) else tabFocusModeOffMsgNoKb (NLS h))])"
  unfolding provideContent_def provideContent_lines_def push_def Let_def
  by (cases "accessibilitySupport (getOptions (editors w ed))") simp_all

text \<open>A read-only plain editor with accessibility support on and tab focus mode off.\<close>

theorem provideContent_layout_witness:
  "provideContent sample_host
     (sample_world\<lparr>editors := (\<lambda>ed. sample_editor\<lparr>getOptions :=
         \<lparr>inDiffEditor = False, readOnly = True,
          accessibilitySupport = Enabled, tabFocusMode = False\<rparr>\<rparr>)\<rparr>) 0 =
     join newline
       [''Accessibility Help'',
        ''You are in a read-only code editor'',
        ''The editor is optimized for a screen reader.'',
        ''Tab inserts a tab. Toggle with Alt+F1.'']"
  using provideContent_layout [where h = sample_host and ed = 0 and w =
      "sample_world\<lparr>editors := (\<lambda>ed. sample_editor\<lparr>getOptions :=
         \<lparr>inDiffEditor = False, readOnly = True,
          accessibilitySupport = Enabled, tabFocusMode = False\<rparr>\<rparr>)\<rparr>"]
  by (simp add: sample_host_def sample_world_def sample_editor_def sample_NLS_def
      sample_keybindings_def descriptionForCommand_def)

subsection \<open>Lines of a joined string\<close>

lemma lines_of_line: "CHR 0x0A \<notin> set x \<Longrightarrow> lines_of x = [x]"
  by (induction x) auto

lemma lines_of_line_newline:
  "CHR 0x0A \<notin> set x \<Longrightarrow> lines_of (x @ CHR 0x0A # rest) = x # lines_of rest"
  by (induction x) auto

lemma lines_of_join:
  "xs \<noteq> [] \<Longrightarrow> \<forall>x \<in> set xs. CHR 0x0A \<notin> set x \<Longrightarrow> lines_of (join newline xs) = xs"
proof (induction newline xs rule: join.induct)
  case 1
  then show ?case by simp
next
  case (2 x)
  then show ?case by (simp add: lines_of_line)
next
  case (3 x y ys)
  then show ?case by (simp add: newline_def lines_of_line_newline)
qed

subsection \<open>The scenario of the diff editor\<close>

text \<open>
  C2, as the code has it. When the editor is in diff mode and read-only, accessibility
  support is Disabled, tab focus mode is on and the toggle-tab-focus command has a keybinding
  whose aria label is "Alt+F1", \<^verbatim>\<open>provideContent\<close> returns a sequence of five lines: the
  title; the readonlyDiffEditor message; the auto_off message; the turn-on hint of the
  operating system, on a line of its own; the tab-focus-on message formatted with "Alt+F1".
\<close>

theorem diff_readonly_disabled_scenario:
  assumes "inDiffEditor (getOptions (editors w ed))"
    and "readOnly (getOptions (editors w ed))"
    and "accessibilitySupport (getOptions (editors w ed)) = Disabled"
    and "tabFocusMode (getOptions (editors w ed))"
    and "lookupKeybinding w (ToggleTabFocusModeAction_ID h) = Some kb"
    and "getAriaLabel kb = ''Alt+F1''"
  shows "provideContent h w ed =
           join newline
             [accessibilityHelpTitle (NLS h),
              readonlyDiffEditor (NLS h),
              auto_off (NLS h),
              (if isMacintosh h then changeConfigToOnMac (NLS h)
               else changeConfigToOnWinLinux (NLS h)),
              format h (tabFocusModeOnMsg (NLS h)) ''Alt+F1'']
       \<and> length (provideContent_lines h w ed) = 5
       \<and> ((\<forall>l \<in> set (provideContent_lines h w ed). CHR 0x0A \<notin> set l) \<longrightarrow>
            length (lines_of (provideContent h w ed)) = 5)"
proof -
  have lines: "provideContent_lines h w ed =
      [accessibilityHelpTitle (NLS h), readonlyDiffEditor (NLS h), auto_off (NLS h),
       (if isMacintosh h then changeConfigToOnMac (NLS h) else changeConfigToOnWinLinux (NLS h)),
       format h (tabFocusModeOnMsg (NLS h)) ''Alt+F1'']"
    using assms
    by (simp add: provideContent_lines_def push_def descriptionForCommand_def Let_def)
  then have len: "length (provideContent_lines h w ed) = 5" by simp
  then have "provideContent_lines h w ed \<noteq> []" by auto
  then have "(\<forall>l \<in> set (provideContent_lines h w ed). CHR 0x0A \<notin> set l) \<longrightarrow>
      lines_of (provideContent h w ed) = provideContent_lines h w ed"
    unfolding provideContent_def by (blast intro: lines_of_join)
  with lines len show ?thesis by (simp add: provideContent_def)
qed

theorem diff_readonly_disabled_scenario_witness:
  "provideContent sample_host sample_world 0 =
     join newline
       [''Accessibility Help'',
        ''You are in a read-only pane of a diff editor.'',
        ''The editor is never optimized for a screen reader.'',
        ''Press Control+E to turn on screen reader mode.'',
        ''Tab moves focus. Toggle with Alt+F1.'']
   \<and> length (provideContent_lines sample_host sample_world 0) = 5"
proof -
  have opts: "inDiffEditor (getOptions (editors sample_world 0))"
    "readOnly (getOptions (editors sample_world 0))"
    "accessibilitySupport (getOptions (editors sample_world 0)) = Disabled"
    "tabFocusMode (getOptions (editors sample_world 0))"
    by (simp_all add: sample_world_def sample_editor_def)
  have kb: "lookupKeybinding sample_world (ToggleTabFocusModeAction_ID sample_host)
              = Some \<lparr>getAriaLabel = ''Alt+F1''\<rparr>"
    by (simp add: sample_world_def sample_host_def sample_keybindings_def)
  have label: "getAriaLabel \<lparr>getAriaLabel = ''Alt+F1''\<rparr> = ''Alt+F1''"
    by simp
  from diff_readonly_disabled_scenario [OF opts kb label]
  show ?thesis by (simp add: sample_host_def sample_NLS_def)
qed

text \<open>
  C2 as stated asks for four lines. In the sample workbench, which is the scenario, the
  string returned has five: \<^verbatim>\<open>content.push(auto_off, turnOnMessage)\<close> adds two elements
  and \<^verbatim>\<open>join\<close> puts a newline between them.
\<close>

theorem four_line_scenario_counterexample:
  "getOptions (editors sample_world 0) =
     \<lparr>inDiffEditor = True, readOnly = True, accessibilitySupport = Disabled, tabFocusMode = True\<rparr>
   \<and> lookupKeybinding sample_world (ToggleTabFocusModeAction_ID sample_host)
       = Some \<lparr>getAriaLabel = ''Alt+F1''\<rparr>
   \<and> lines_of (provideContent sample_host sample_world 0) =
       [''Accessibility Help'',
        ''You are in a read-only pane of a diff editor.'',
        ''The editor is never optimized for a screen reader.'',
        ''Press Control+E to turn on screen reader mode.'',
        ''Tab moves focus. Toggle with Alt+F1.'']
   \<and> length (lines_of (provideContent sample_host sample_world 0)) \<noteq> 4"
  by (simp add: sample_host_def sample_world_def sample_editor_def sample_NLS_def
      sample_keybindings_def provideContent_def provideContent_lines_def push_def
      descriptionForCommand_def newline_def Let_def)

subsection \<open>The tab-focus line\<close>

text \<open>
  C6. For every command id, \<^verbatim>\<open>_descriptionForCommand\<close> gives the keybinding message
  formatted with the aria label of the keybinding when the keybinding service resolves one
  for the command, and the no-keybinding message formatted with the command id itself when
  none is bound. The last line of the help text is built this way for the toggle-tab-focus
  command, from the pair of messages that tab focus mode selects.
\<close>

theorem descriptionForCommand_cases:
  "(case lookupKeybinding w commandId of
      Some kb \<Rightarrow> descriptionForCommand h w commandId msg noKbMsg = format h msg (getAriaLabel kb)
    | None \<Rightarrow> descriptionForCommand h w commandId msg noKbMsg = format h noKbMsg commandId)
   \<and> last (provideContent_lines h w ed) =
       (case lookupKeybinding w (ToggleTabFocusModeAction_ID h) of
          Some kb \<Rightarrow>
            format h (if tabFocusMode (getOptions (editors w ed))
                      then tabFocusModeOnMsg (NLS h) else tabFocusModeOffMsg (NLS h))
                     (getAriaLabel kb)
        | None \<Rightarrow>
            format h (if tabFocusMode (getOptions (editors w ed))
                      then tabFocusModeOnMsgNoKb (NLS h) else tabFocusModeOffMsgNoKb (NLS h))
                     (ToggleTabFocusModeAction_ID h))"
  unfolding provideContent_lines_def push_def Let_def descriptionForCommand_def
  by (simp split: option.splits)

theorem descriptionForCommand_cases_witness:
  "descriptionForCommand sample_host sample_world ''editor.action.toggleTabFocusMode''
       ''Toggle with {0}.'' ''Command {0} has no keybinding.'' = ''Toggle with Alt+F1.''
   \<and> descriptionForCommand sample_host unbound_world ''editor.action.toggleTabFocusMode''
       ''Toggle with {0}.'' ''Command {0} has no keybinding.''
       = ''Command editor.action.toggleTabFocusMode has no keybinding.''
   \<and> last (provideContent_lines sample_host unbound_world 0)
       = ''Tab moves focus. Command editor.action.toggleTabFocusMode has no keybinding.''"
  using descriptionForCommand_cases [where h = sample_host and w = sample_world and ed = 0
          and commandId = "''editor.action.toggleTabFocusMode''"
          and msg = "''Toggle with {0}.''" and noKbMsg = "''Command {0} has no keybinding.''"]
        descriptionForCommand_cases [where h = sample_host and w = unbound_world and ed = 0
          and commandId = "''editor.action.toggleTabFocusMode''"
          and msg = "''Toggle with {0}.''" and noKbMsg = "''Command {0} has no keybinding.''"]
  by (simp add: sample_host_def sample_world_def sample_editor_def sample_NLS_def
      sample_keybindings_def unbound_world_def)

subsection \<open>The link to the documentation\<close>

text \<open>
  C9. After the constructor of \<^verbatim>\<open>AccessibilityHelpProvider\<close> has run,
  \<^verbatim>\<open>options.readMoreUrl\<close> is defined: it is the editor's raw option
  \<^verbatim>\<open>accessibilityHelpUrl\<close> when that is defined and the fixed URL
  \<^verbatim>\<open>https://go.microsoft.com/fwlink/?linkid=852450\<close> otherwise.
\<close>

theorem readMoreUrl_always_defined:
  "readMoreUrl (provider_options (new_AccessibilityHelpProvider h w ed)) =
     Some (case accessibilityHelpUrl (editors w ed) of
             Some url \<Rightarrow> url
           | None \<Rightarrow> ''https://go.microsoft.com/fwlink/?linkid=852450'')
   \<and> readMoreUrl (provider_options (new_AccessibilityHelpProvider h w ed)) \<noteq> None"
  by (simp add: new_AccessibilityHelpProvider_def default_readMoreUrl_def Let_def
      split: option.splits)

theorem readMoreUrl_always_defined_witness:
  "readMoreUrl (provider_options (new_AccessibilityHelpProvider sample_host sample_world 0))
     = Some ''https://go.microsoft.com/fwlink/?linkid=852450''
   \<and> readMoreUrl (provider_options (new_AccessibilityHelpProvider sample_host
        (sample_world\<lparr>editors := (\<lambda>ed. sample_editor\<lparr>accessibilityHelpUrl :=
            Some ''https://example.org/help''\<rparr>)\<rparr>) 0))
     = Some ''https://example.org/help''"
  using readMoreUrl_always_defined [where h = sample_host and w = sample_world and ed = 0]
        readMoreUrl_always_defined [where h = sample_host and ed = 0 and w =
          "sample_world\<lparr>editors := (\<lambda>ed. sample_editor\<lparr>accessibilityHelpUrl :=
              Some ''https://example.org/help''\<rparr>)\<rparr>"]
  by (simp add: sample_world_def sample_editor_def)

section \<open>The hover implementation\<close>

lemma withNullAsUndefined_Defined:
  "withNullAsUndefined x = Defined s \<longleftrightarrow> x = Defined s"
  by (cases x) simp_all

lemma hover_calls:
  "snd (hoverImplementation h w) = []
   \<or> (\<exists>s. snd (hoverImplementation h w)
            = [RegisterProvider (hoverProvider h s), ShowView ''hover''])"
  unfolding hoverImplementation_def Let_def
  by (auto split: option.splits nullable.splits)

text \<open>
  C4. Whenever the hover implementation runs and there is no active and no focused code
  editor, or the editor has no hover controller, or the contents of the hover widget are
  absent (null or undefined) or empty, it returns false and calls neither
  \<^verbatim>\<open>registerProvider\<close> nor \<^verbatim>\<open>show\<close>.
\<close>

theorem hover_declines_without_content:
  assumes "(getActiveCodeEditor w = None \<and> getFocusedCodeEditor w = None)
         \<or> (\<exists>editor. or_else (getActiveCodeEditor w) (getFocusedCodeEditor w) = Some editor
              \<and> (hoverController (editors w editor) = None
                 \<or> (\<exists>controller. hoverController (editors w editor) = Some controller
                      \<and> (getWidgetContents controller = Null
                         \<or> getWidgetContents controller = Undefined
                         \<or> getWidgetContents controller = Defined []))))"
  shows "fst (hoverImplementation h w) = Returned (JSBool False)
       \<and> filter is_register_or_show (snd (hoverImplementation h w)) = []"
  using assms unfolding hoverImplementation_def Let_def
  by (auto split: option.splits)

text \<open>No editor at all; an editor without hover controller; a hover widget with empty text.\<close>

theorem hover_declines_without_content_witness:
  "hoverImplementation sample_host empty_world = (Returned (JSBool False), [])
   \<and> hoverImplementation sample_host
       (sample_world\<lparr>editors := (\<lambda>ed. sample_editor\<lparr>hoverController := None\<rparr>)\<rparr>)
     = (Returned (JSBool False), [])
   \<and> hoverImplementation sample_host
       (sample_world\<lparr>editors := (\<lambda>ed. sample_editor\<lparr>hoverController :=
           Some \<lparr>getWidgetContents = Defined []\<rparr>\<rparr>)\<rparr>)
     = (Returned (JSBool False), [])"
  using hover_declines_without_content [where h = sample_host and w = empty_world]
    hover_declines_without_content [where h = sample_host and w =
      "sample_world\<lparr>editors := (\<lambda>ed. sample_editor\<lparr>hoverController := None\<rparr>)\<rparr>"]
    hover_declines_without_content [where h = sample_host and w =
      "sample_world\<lparr>editors := (\<lambda>ed. sample_editor\<lparr>hoverController :=
           Some \<lparr>getWidgetContents = Defined []\<rparr>\<rparr>)\<rparr>"]
  by (simp add: sample_world_def sample_editor_def empty_world_def hoverImplementation_def)

text \<open>
  C8. The \<^verbatim>\<open>provideContent\<close> of a provider that the hover implementation registered is a
  constant function: at every call, in whatever state the workbench is by then, it returns
  the same string, the contents the hover widget had when the implementation ran.
\<close>

theorem hover_provideContent_is_snapshot:
  assumes "RegisterProvider p \<in> set (snd (hoverImplementation h w))"
  shows "\<exists>editor controller.
           or_else (getActiveCodeEditor w) (getFocusedCodeEditor w) = Some editor
           \<and> hoverController (editors w editor) = Some controller
           \<and> getWidgetContents controller = Defined (call_provideContent h w p)
           \<and> (\<forall>later. call_provideContent h later p = call_provideContent h w p)"
  using assms unfolding hoverImplementation_def Let_def hoverProvider_def
  by (auto simp: withNullAsUndefined_Defined split: option.splits nullable.splits if_splits)

text \<open>The hover text changes after the provider was registered; the provider does not follow.\<close>

theorem hover_provideContent_is_snapshot_witness:
  "RegisterProvider (hoverProvider sample_host ''const x: number'')
     \<in> set (snd (hoverImplementation sample_host sample_world))
   \<and> call_provideContent sample_host
        (sample_world\<lparr>editors := (\<lambda>ed. sample_editor\<lparr>hoverController :=
            Some \<lparr>getWidgetContents = Defined ''let y: string''\<rparr>\<rparr>)\<rparr>)
        (hoverProvider sample_host ''const x: number'') = ''const x: number''"
proof -
  have reg: "RegisterProvider (hoverProvider sample_host ''const x: number'')
     \<in> set (snd (hoverImplementation sample_host sample_world))"
    by (simp add: hoverImplementation_def sample_world_def sample_editor_def)
  from hover_provideContent_is_snapshot [OF reg]
  have "call_provideContent sample_host
        (sample_world\<lparr>editors := (\<lambda>ed. sample_editor\<lparr>hoverController :=
            Some \<lparr>getWidgetContents = Defined ''let y: string''\<rparr>\<rparr>)\<rparr>)
        (hoverProvider sample_host ''const x: number'')
      = call_provideContent sample_host sample_world (hoverProvider sample_host ''const x: number'')"
    by blast
  then show ?thesis using reg by (simp add: hoverProvider_def)
qed

text \<open>
  By contrast the help provider reads its editor at every call: the same provider gives
  another text once the options of the editor have changed.
\<close>

lemma help_provideContent_follows_editor:
  "call_provideContent sample_host sample_world
       (new_AccessibilityHelpProvider sample_host sample_world 0)
   \<noteq> call_provideContent sample_host
        (sample_world\<lparr>editors := (\<lambda>ed. sample_editor\<lparr>getOptions :=
           \<lparr>inDiffEditor = False, readOnly = False,
            accessibilitySupport = Enabled, tabFocusMode = False\<rparr>\<rparr>)\<rparr>)
        (new_AccessibilityHelpProvider sample_host sample_world 0)"
  by (simp add: sample_host_def sample_world_def sample_editor_def sample_NLS_def
      sample_keybindings_def new_AccessibilityHelpProvider_def provideContent_def
      provideContent_lines_def push_def descriptionForCommand_def newline_def Let_def)

section \<open>The editor-help implementation\<close>

lemma editorHelp_calls:
  "(\<exists>w' ed. snd (editorHelpImplementation h w) =
       [RegisterProvider (new_AccessibilityHelpProvider h w' ed), ShowView ''editor''])
   \<or> snd (editorHelpImplementation h w) = [ExecuteCommand (NEW_UNTITLED_FILE_COMMAND_ID h)]
   \<or> (\<exists>w' ed. snd (editorHelpImplementation h w) =
       [ExecuteCommand (NEW_UNTITLED_FILE_COMMAND_ID h),
        RegisterProvider (new_AccessibilityHelpProvider h w' ed), ShowView ''editor''])"
  unfolding editorHelpImplementation_def by (auto split: option.splits)

text \<open>
  C7. When the editor-help implementation runs and there is no active and no focused code
  editor, its first call executes the new-untitled-file command; with the editor that is
  active once the command has completed it then registers an
  \<^verbatim>\<open>AccessibilityHelpProvider\<close> for that editor and shows the slot \<^verbatim>\<open>'editor'\<close>.
\<close>

theorem editorHelp_opens_untitled_file_first:
  assumes "getActiveCodeEditor w = None" and "getFocusedCodeEditor w = None"
  shows "take 1 (snd (editorHelpImplementation h w))
           = [ExecuteCommand (NEW_UNTITLED_FILE_COMMAND_ID h)]
       \<and> (\<forall>w' codeEditor.
             executeCommand h (NEW_UNTITLED_FILE_COMMAND_ID h) w = Some w'
             \<and> getActiveCodeEditor w' = Some codeEditor \<longrightarrow>
             snd (editorHelpImplementation h w) =
               [ExecuteCommand (NEW_UNTITLED_FILE_COMMAND_ID h),
                RegisterProvider (new_AccessibilityHelpProvider h w' codeEditor),
                ShowView ''editor''])"
  using assms unfolding editorHelpImplementation_def
  by (auto split: option.splits)

theorem editorHelp_opens_untitled_file_first_witness:
  "getActiveCodeEditor empty_world = None \<and> getFocusedCodeEditor empty_world = None
   \<and> executeCommand sample_host ''workbench.action.files.newUntitledFile'' empty_world
       = Some sample_world
   \<and> getActiveCodeEditor sample_world = Some 0
   \<and> snd (editorHelpImplementation sample_host empty_world) =
       [ExecuteCommand ''workbench.action.files.newUntitledFile'',
        RegisterProvider (new_AccessibilityHelpProvider sample_host sample_world 0),
        ShowView ''editor'']"
proof -
  have none: "getActiveCodeEditor empty_world = None" "getFocusedCodeEditor empty_world = None"
    by (simp_all add: empty_world_def sample_world_def)
  have cmd: "executeCommand sample_host (NEW_UNTITLED_FILE_COMMAND_ID sample_host) empty_world
               = Some sample_world"
    by (simp add: sample_host_def empty_world_def sample_world_def)
  have act: "getActiveCodeEditor sample_world = Some 0"
    by (simp add: sample_world_def)
  have cid: "NEW_UNTITLED_FILE_COMMAND_ID sample_host = ''workbench.action.files.newUntitledFile''"
    by (simp add: sample_host_def)
  from editorHelp_opens_untitled_file_first [OF none, of sample_host] cmd act
  have "snd (editorHelpImplementation sample_host empty_world) =
       [ExecuteCommand (NEW_UNTITLED_FILE_COMMAND_ID sample_host),
        RegisterProvider (new_AccessibilityHelpProvider sample_host sample_world 0),
        ShowView ''editor'']"
    by blast
  with none cmd act cid show ?thesis by simp
qed

section \<open>What the implementations return\<close>

text \<open>
  C5, as the code has it. The hover implementation (priority 90) returns the boolean true
  on the path where it opens the view and the boolean false otherwise. The editor-help
  implementation (priority 100) is an \<^verbatim>\<open>async\<close> function without \<^verbatim>\<open>return\<close>
  statement: on the path where it opens the view its promise is fulfilled with
  \<^verbatim>\<open>undefined\<close>, and otherwise the promise is rejected; it never yields a boolean.
\<close>

theorem implementations_results:
  "priority (HoverAccessibileViewContribution h) = 90
   \<and> fst (run (HoverAccessibileViewContribution h) w) =
       Returned (JSBool (ShowView ''hover'' \<in> set (snd (run (HoverAccessibileViewContribution h) w))))
   \<and> priority (EditorAccessibilityHelpContribution h) = 100
   \<and> fst (run (EditorAccessibilityHelpContribution h) w) =
       (if ShowView ''editor'' \<in> set (snd (run (EditorAccessibilityHelpContribution h) w))
        then Fulfilled JSUndefined
        else Rejected (if executeCommand h (NEW_UNTITLED_FILE_COMMAND_ID h) w = None
                       then CommandFailed else TypeError))"
  unfolding HoverAccessibileViewContribution_def EditorAccessibilityHelpContribution_def
    hoverImplementation_def editorHelpImplementation_def Let_def
  by (auto split: option.splits nullable.splits)

theorem implementations_results_witness:
  "run (HoverAccessibileViewContribution sample_host) sample_world =
     (Returned (JSBool True),
      [RegisterProvider (hoverProvider sample_host ''const x: number''), ShowView ''hover''])
   \<and> run (HoverAccessibileViewContribution sample_host) empty_world
       = (Returned (JSBool False), [])
   \<and> run (EditorAccessibilityHelpContribution sample_host) sample_world =
     (Fulfilled JSUndefined,
      [RegisterProvider (new_AccessibilityHelpProvider sample_host sample_world 0),
       ShowView ''editor''])"
  using implementations_results [of sample_host sample_world]
    implementations_results [of sample_host empty_world]
  by (simp add: HoverAccessibileViewContribution_def EditorAccessibilityHelpContribution_def
      hoverImplementation_def editorHelpImplementation_def
      sample_world_def sample_editor_def empty_world_def)

text \<open>
  C5 as stated has the editor-help implementation return true where it opens the view. With
  an editor active it registers its provider and shows the slot, and its result is a promise
  fulfilled with \<^verbatim>\<open>undefined\<close>.
\<close>

theorem editorHelp_returns_true_counterexample:
  "ShowView ''editor''
     \<in> set (snd (run (EditorAccessibilityHelpContribution sample_host) sample_world))
   \<and> fst (run (EditorAccessibilityHelpContribution sample_host) sample_world)
       = Fulfilled JSUndefined
   \<and> fst (run (EditorAccessibilityHelpContribution sample_host) sample_world)
       \<noteq> Fulfilled (JSBool True)
   \<and> fst (run (EditorAccessibilityHelpContribution sample_host) sample_world)
       \<noteq> Returned (JSBool True)"
  by (simp add: EditorAccessibilityHelpContribution_def editorHelpImplementation_def
      sample_world_def)

section \<open>The implementations and the registry\<close>

lemma show_slot_after_register:
  "provider_id p = s \<Longrightarrow> \<exists>reg'. show_slot (registerProvider reg p) s = Inr reg'"
  by (auto simp: show_slot_def registerProvider_def split: slot.splits)

lemma perform_register_show:
  assumes "provider_id p = s"
  shows "snd (perform reg [RegisterProvider p, ShowView s]) = []"
proof -
  from show_slot_after_register [OF assms, of reg]
  obtain reg' where "show_slot (registerProvider reg p) s = Inr reg'" ..
  then show ?thesis by simp
qed

lemma new_AccessibilityHelpProvider_id:
  "provider_id (new_AccessibilityHelpProvider h w ed) = ''editor''"
  by (simp add: new_AccessibilityHelpProvider_def Let_def)

lemma hoverProvider_id: "provider_id (hoverProvider h s) = ''hover''"
  by (simp add: hoverProvider_def)

text \<open>
  C10. In both contributions every call \<^verbatim>\<open>show(slotId)\<close> comes directly after a call of
  \<^verbatim>\<open>registerProvider\<close> with a provider whose id is that slot id (\<^verbatim>\<open>'editor'\<close> in the
  help implementation, \<^verbatim>\<open>'hover'\<close> in the hover implementation); hence, from whatever
  state the registry starts, no \<^verbatim>\<open>show\<close> made by them reports NotRegistered.
\<close>

theorem show_only_after_registerProvider:
  "show_after_register None (snd (editorHelpImplementation h w))
   \<and> show_after_register None (snd (hoverImplementation h w))
   \<and> set (filter is_show (snd (editorHelpImplementation h w))) \<subseteq> {ShowView ''editor''}
   \<and> set (filter is_show (snd (hoverImplementation h w))) \<subseteq> {ShowView ''hover''}
   \<and> snd (perform reg (snd (editorHelpImplementation h w))) = []
   \<and> snd (perform reg (snd (hoverImplementation h w))) = []"
proof -
  have e1: "show_after_register None (snd (editorHelpImplementation h w))"
    using editorHelp_calls [of h w] by (auto simp: new_AccessibilityHelpProvider_id)
  have e2: "snd (perform reg (snd (editorHelpImplementation h w))) = []"
    using editorHelp_calls [of h w]
      perform_register_show [OF new_AccessibilityHelpProvider_id, of reg]
    by (elim disjE exE) simp_all
  have e3: "set (filter is_show (snd (editorHelpImplementation h w))) \<subseteq> {ShowView ''editor''}"
    using editorHelp_calls [of h w] by auto
  have h1: "show_after_register None (snd (hoverImplementation h w))"
    using hover_calls [of h w] by (auto simp: hoverProvider_id)
  have h2: "snd (perform reg (snd (hoverImplementation h w))) = []"
    using hover_calls [of h w] perform_register_show [OF hoverProvider_id, of reg]
    by (elim disjE exE) simp_all
  have h3: "set (filter is_show (snd (hoverImplementation h w))) \<subseteq> {ShowView ''hover''}"
    using hover_calls [of h w] by auto
  from e1 e2 e3 h1 h2 h3 show ?thesis by simp
qed

text \<open>
  From an empty registry the calls of the hover implementation raise no error, while a bare
  \<^verbatim>\<open>show('hover')\<close> would.
\<close>

theorem show_only_after_registerProvider_witness:
  "snd (hoverImplementation sample_host sample_world)
     = [RegisterProvider (hoverProvider sample_host ''const x: number''), ShowView ''hover'']
   \<and> show_after_register None (snd (hoverImplementation sample_host sample_world))
   \<and> snd (perform \<lparr>slots = (\<lambda>s. Empty), closed = []\<rparr>
            (snd (hoverImplementation sample_host sample_world))) = []
   \<and> snd (perform \<lparr>slots = (\<lambda>s. Empty), closed = []\<rparr> [ShowView ''hover'']) = [NotRegistered]"
  using show_only_after_registerProvider
    [of sample_host sample_world "\<lparr>slots = (\<lambda>s. Empty), closed = []\<rparr>"]
  by (simp add: hoverImplementation_def sample_world_def sample_editor_def show_slot_def)

section \<open>Faults of a handler\<close>

lemma invoke_outcome: "\<exists>b. fst (invoke impls ctx) = Result b"
  by (induction impls) (auto split: handler_outcome.splits bool.splits prod.splits)

lemma invoke_replace_fault:
  "k < length impls \<Longrightarrow> handler (impls ! k) ctx = Fault \<Longrightarrow>
   invoke impls ctx = invoke (impls[k := (impls ! k)\<lparr>handler := (\<lambda>c. Result False)\<rparr>]) ctx"
proof (induction impls arbitrary: k)
  case Nil
  then show ?case by simp
next
  case (Cons i rest)
  show ?case
  proof (cases k)
    case 0
    with Cons.prems show ?thesis by (simp split: prod.splits)
  next
    case (Suc j)
    with Cons.prems have "j < length rest" "handler (rest ! j) ctx = Fault" by simp_all
    from Cons.IH [OF this] Suc show ?thesis
      by (simp split: handler_outcome.splits bool.splits)
  qed
qed

text \<open>
  C3. For every handler registered on a PrioritizedAction and every context: if the handler
  throws or its promise rejects, \<^verbatim>\<open>invoke\<close> behaves as if it had returned false, goes on
  with the next implementation, and itself ends with a boolean, never with the fault.
\<close>

theorem invoke_treats_fault_as_false:
  assumes "k < length impls" and "handler (impls ! k) ctx = Fault"
  shows "invoke impls ctx
           = invoke (impls[k := (impls ! k)\<lparr>handler := (\<lambda>c. Result False)\<rparr>]) ctx
       \<and> fst (invoke impls ctx) \<noteq> Fault
       \<and> invoke (drop k impls) ctx =
           (fst (invoke (drop (Suc k) impls) ctx),
            surfaceId (impls ! k) # snd (invoke (drop (Suc k) impls) ctx))"
proof (intro conjI)
  show "invoke impls ctx
          = invoke (impls[k := (impls ! k)\<lparr>handler := (\<lambda>c. Result False)\<rparr>]) ctx"
    using assms by (rule invoke_replace_fault)
  show "fst (invoke impls ctx) \<noteq> Fault"
    using invoke_outcome [of impls ctx] by auto
  from assms(1) have "drop k impls = impls ! k # drop (Suc k) impls"
    by (simp add: Cons_nth_drop_Suc)
  with assms(2) show "invoke (drop k impls) ctx =
           (fst (invoke (drop (Suc k) impls) ctx),
            surfaceId (impls ! k) # snd (invoke (drop (Suc k) impls) ctx))"
    by (simp split: prod.splits)
qed

theorem invoke_treats_fault_as_false_witness:
  "0 < length sample_implementations
   \<and> handler (sample_implementations ! 0) 1 = Fault
   \<and> invoke sample_implementations 1 = (Result True, [''editor'', ''hover''])
   \<and> invoke (sample_implementations
               [0 := (sample_implementations ! 0)\<lparr>handler := (\<lambda>c. Result False)\<rparr>]) 1
       = (Result True, [''editor'', ''hover''])"
proof -
  have len: "0 < length sample_implementations"
    by (simp add: sample_implementations_def)
  have fault: "handler (sample_implementations ! 0) 1 = Fault"
    by (simp add: sample_implementations_def)
  have result: "invoke sample_implementations 1 = (Result True, [''editor'', ''hover''])"
    by (simp add: sample_implementations_def)
  from invoke_treats_fault_as_false [OF len fault] len fault result show ?thesis by simp
qed

end
